theory Spec2Isabelle
  imports Complex_Main
begin

section \<open>The vector mechanism of diffprivlib (\<^verbatim>\<open>diffprivlib/mechanisms/vector.py\<close>)\<close>

text \<open>
  The class \<^verbatim>\<open>Vector\<close> perturbs a convex objective function: its setters validate and
  store the parameters, \<^verbatim>\<open>check_inputs\<close> is the aggregate check, and \<^verbatim>\<open>randomise\<close>
  derives the adjusted privacy budget, draws one noise vector and returns a closure
  \<^verbatim>\<open>output_func\<close> that adds the perturbation to the objective and to its gradient.

  Conventions of the embedding:
  \<^item> A float is a real number, an infinity or NaN. Finite arithmetic is exact: rounding,
    overflow and underflow are outside the model, and zero carries no sign (a quotient
    by zero is taken by positive zero).
  \<^item> A method that can raise returns a pair: \<open>Inl\<close> of the exception or \<open>Inr\<close> of the
    returned value, together with the object \<^verbatim>\<open>self\<close> as it is at that moment.
  \<^item> The global generator behind \<^verbatim>\<open>np.random\<close> is an explicit state of type \<open>'s\<close>,
    threaded through every call that may draw from it.
  \<^item> Arrays that the objective function keeps and hands back live in a store, addressed
    by numbers, so that an update in place is seen by the next call.
\<close>

subsection \<open>Python values\<close>

datatype py_error = TypeError | ValueError | OverflowError | IndexError | ZeroDivisionError

text \<open>A float: a finite value, or one of the three special values.\<close>

datatype pyfloat = Fin real | PInf | NInf | NaN

text \<open>
  An argument tested with \<^verbatim>\<open>isinstance(x, Real)\<close>: a number, given as a Python int or
  float, or anything else.
\<close>

datatype 'n pyarg = IsReal 'n | NotReal

text \<open>An argument tested with \<^verbatim>\<open>callable(value)\<close>.\<close>

datatype 'f pycallable = Callable 'f | NotCallable

text \<open>
  What an objective function may hand back, apart from tuples: \<^verbatim>\<open>None\<close>, a scalar, a
  numpy array, or a Python list of numbers. An array is one-dimensional and is either
  new (\<open>NdArray\<close>, held by the returned value alone, so it is given by its contents) or
  kept by the objective (\<open>StoredArray\<close>, given by its address in the store). A returned
  value is such an object or a tuple of them.
\<close>

datatype pyobj =
  PyNone | PyFloat pyfloat | NdArray "pyfloat list" | PyList "pyfloat list" | StoredArray nat

datatype retval = Tuple "pyobj list" | Single pyobj

type_synonym store = "nat \<Rightarrow> pyfloat list"

text \<open>
  An objective is called with its positional arguments in a state of the generator and
  of the store; it raises or returns. The arguments are one-dimensional arrays, the
  first being the evaluation point. They are given by their contents: the closure reads
  the evaluation point and writes only into what the objective returns.
\<close>

type_synonym 's objective =
  "pyfloat list list \<Rightarrow> 's \<times> store \<Rightarrow> (py_error + retval) \<times> ('s \<times> store)"

subsection \<open>Float arithmetic\<close>

fun fneg :: "pyfloat \<Rightarrow> pyfloat" where
  "fneg (Fin x) = Fin (- x)"
| "fneg PInf = NInf"
| "fneg NInf = PInf"
| "fneg NaN = NaN"

fun fadd :: "pyfloat \<Rightarrow> pyfloat \<Rightarrow> pyfloat" where
  "fadd (Fin x) (Fin y) = Fin (x + y)"
| "fadd NaN _ = NaN"
| "fadd _ NaN = NaN"
| "fadd PInf NInf = NaN"
| "fadd NInf PInf = NaN"
| "fadd PInf _ = PInf"
| "fadd _ PInf = PInf"
| "fadd NInf _ = NInf"
| "fadd _ NInf = NInf"

definition fsub :: "pyfloat \<Rightarrow> pyfloat \<Rightarrow> pyfloat" where
  "fsub x y = fadd x (fneg y)"

fun fmul :: "pyfloat \<Rightarrow> pyfloat \<Rightarrow> pyfloat" where
  "fmul (Fin x) (Fin y) = Fin (x * y)"
| "fmul NaN _ = NaN"
| "fmul _ NaN = NaN"
| "fmul (Fin x) PInf = (if x = 0 then NaN else if 0 < x then PInf else NInf)"
| "fmul (Fin x) NInf = (if x = 0 then NaN else if 0 < x then NInf else PInf)"
| "fmul PInf (Fin y) = (if y = 0 then NaN else if 0 < y then PInf else NInf)"
| "fmul NInf (Fin y) = (if y = 0 then NaN else if 0 < y then NInf else PInf)"
| "fmul PInf PInf = PInf"
| "fmul NInf NInf = PInf"
| "fmul PInf NInf = NInf"
| "fmul NInf PInf = NInf"

text \<open>
  Division as numpy does it: it never raises. A finite number divided by zero is an
  infinity of its sign, and zero divided by zero is NaN.
\<close>

fun float_div :: "pyfloat \<Rightarrow> pyfloat \<Rightarrow> pyfloat" where
  "float_div (Fin x) (Fin y) =
     (if y \<noteq> 0 then Fin (x / y) else if x = 0 then NaN else if 0 < x then PInf else NInf)"
| "float_div NaN _ = NaN"
| "float_div _ NaN = NaN"
| "float_div (Fin x) PInf = Fin 0"
| "float_div (Fin x) NInf = Fin 0"
| "float_div PInf (Fin y) = (if 0 \<le> y then PInf else NInf)"
| "float_div NInf (Fin y) = (if 0 \<le> y then NInf else PInf)"
| "float_div PInf PInf = NaN"
| "float_div PInf NInf = NaN"
| "float_div NInf PInf = NaN"
| "float_div NInf NInf = NaN"

text \<open>Division of Python floats raises ZeroDivisionError on a zero divisor.\<close>

definition py_truediv :: "pyfloat \<Rightarrow> pyfloat \<Rightarrow> py_error + pyfloat" where
  "py_truediv x y = (if y = Fin 0 then Inl ZeroDivisionError else Inr (float_div x y))"

text \<open>
  \<^verbatim>\<open>np.log\<close> and \<^verbatim>\<open>np.exp\<close> warn and do not raise: the logarithm of zero is minus
  infinity and that of a negative number is NaN.
\<close>

fun np_log :: "pyfloat \<Rightarrow> pyfloat" where
  "np_log (Fin x) = (if 0 < x then Fin (ln x) else if x = 0 then NInf else NaN)"
| "np_log PInf = PInf"
| "np_log NInf = NaN"
| "np_log NaN = NaN"

fun np_exp :: "pyfloat \<Rightarrow> pyfloat" where
  "np_exp (Fin x) = Fin (exp x)"
| "np_exp PInf = PInf"
| "np_exp NInf = Fin 0"
| "np_exp NaN = NaN"

text \<open>\<^verbatim>\<open>x <= 0\<close>: a comparison with NaN is false.\<close>

fun le_zero :: "pyfloat \<Rightarrow> bool" where
  "le_zero (Fin x) \<longleftrightarrow> x \<le> 0"
| "le_zero NInf \<longleftrightarrow> True"
| "le_zero PInf \<longleftrightarrow> False"
| "le_zero NaN \<longleftrightarrow> False"

subsection \<open>The mechanism object\<close>

record vector =
  self_epsilon :: "real option"
  self_delta :: "real option"
  self_function_sensitivity :: "pyfloat option"
  self_data_sensitivity :: "pyfloat option"
  self_d :: "int option"
  self_alpha :: pyfloat

text \<open>
  Modelled from the spec: the constructor of the base class \<^verbatim>\<open>DPMechanism\<close>, which is
  not part of the sources. The spec's constructor leaves epsilon (and delta) unset.
\<close>

definition DPMechanism_init :: "real option \<times> real option" where
  "DPMechanism_init = (None, None)"

definition Vector_init :: vector where
  "Vector_init =
     (let (epsilon, delta) = DPMechanism_init in
      \<lparr> self_epsilon = epsilon, self_delta = delta,
        self_function_sensitivity = None, self_data_sensitivity = Some (Fin 1),
        self_d = None, self_alpha = Fin 0.01 \<rparr>)"

subsection \<open>Setters\<close>

text \<open>
  Modelled from the spec: \<^verbatim>\<open>DPMechanism.set_epsilon_delta\<close>, the shared base validation,
  which is not part of the sources. It requires \<open>epsilon > 0\<close>, fails with a ValueError
  if not, and stores both values.
\<close>

definition DPMechanism_set_epsilon_delta ::
  "vector \<Rightarrow> real \<Rightarrow> real \<Rightarrow> (py_error + unit) \<times> vector" where
  "DPMechanism_set_epsilon_delta self epsilon delta =
     (if \<not> epsilon > 0 then (Inl ValueError, self)
      else (Inr (), self\<lparr>self_epsilon := Some epsilon, self_delta := Some delta\<rparr>))"

text \<open>
  \<^verbatim>\<open>if not delta == 0: raise ValueError\<close>. An object that is not a number is not equal
  to \<open>0\<close>, so it is refused in the same way.
\<close>

definition set_epsilon_delta ::
  "vector \<Rightarrow> real \<Rightarrow> real pyarg \<Rightarrow> (py_error + unit) \<times> vector" where
  "set_epsilon_delta self epsilon delta =
     (case delta of
        NotReal \<Rightarrow> (Inl ValueError, self)
      | IsReal dl \<Rightarrow>
          if \<not> dl = 0 then (Inl ValueError, self)
          else DPMechanism_set_epsilon_delta self epsilon dl)"

text \<open>
  The sensitivities and alpha are tested with \<^verbatim>\<open>isinstance(x, Real)\<close> and \<^verbatim>\<open>x <= 0\<close>
  only: plus infinity and NaN pass both tests and are stored.
\<close>

definition set_sensitivity ::
  "vector \<Rightarrow> pyfloat pyarg \<Rightarrow> pyfloat pyarg \<Rightarrow> (py_error + unit) \<times> vector" where
  "set_sensitivity self function_sensitivity data_sensitivity =
     (case (function_sensitivity, data_sensitivity) of
        (IsReal c, IsReal g) \<Rightarrow>
          if le_zero c \<or> le_zero g then (Inl ValueError, self)
          else (Inr (), self\<lparr>self_function_sensitivity := Some c,
                              self_data_sensitivity := Some g\<rparr>)
      | _ \<Rightarrow> (Inl TypeError, self))"

definition set_alpha :: "vector \<Rightarrow> pyfloat pyarg \<Rightarrow> (py_error + unit) \<times> vector" where
  "set_alpha self alpha =
     (case alpha of
        NotReal \<Rightarrow> (Inl TypeError, self)
      | IsReal a \<Rightarrow>
          if le_zero a then (Inl ValueError, self)
          else (Inr (), self\<lparr>self_alpha := a\<rparr>))"

text \<open>\<^verbatim>\<open>int(d)\<close> on a finite number truncates towards zero.\<close>

definition trunc :: "real \<Rightarrow> int" where
  "trunc r = (if 0 \<le> r then \<lfloor>r\<rfloor> else \<lceil>r\<rceil>)"

text \<open>
  \<^verbatim>\<open>np.isclose(a, b)\<close> with numpy's default tolerances \<open>rtol = 1e-5\<close> and
  \<open>atol = 1e-8\<close>, on finite arguments.
\<close>

definition np_isclose :: "real \<Rightarrow> real \<Rightarrow> bool" where
  "np_isclose a b \<longleftrightarrow> \<bar>a - b\<bar> \<le> 1 / 10 ^ 8 + 1 / 10 ^ 5 * \<bar>b\<bar>"

text \<open>
  In \<^verbatim>\<open>np.isclose(d, int(d))\<close> the argument \<^verbatim>\<open>int(d)\<close> is evaluated before
  \<^verbatim>\<open>np.isclose\<close> is called: on an infinity \<^verbatim>\<open>int\<close> raises OverflowError, on NaN it
  raises ValueError, and neither is caught.
\<close>

fun set_dimension :: "vector \<Rightarrow> pyfloat pyarg \<Rightarrow> (py_error + unit) \<times> vector" where
  "set_dimension self NotReal = (Inl TypeError, self)"
| "set_dimension self (IsReal (Fin r)) =
     (if \<not> np_isclose r (of_int (trunc r)) then (Inl TypeError, self)
      else if \<not> r \<ge> 1 then (Inl ValueError, self)
      else (Inr (), self\<lparr>self_d := Some (trunc r)\<rparr>))"
| "set_dimension self (IsReal NaN) = (Inl ValueError, self)"
| "set_dimension self (IsReal PInf) = (Inl OverflowError, self)"
| "set_dimension self (IsReal NInf) = (Inl OverflowError, self)"

subsection \<open>The aggregate check\<close>

text \<open>
  Modelled from the spec: \<^verbatim>\<open>DPMechanism.check_inputs\<close>, the base check, which is not
  part of the sources: epsilon must be set and positive. The spec files a skipped
  configuration step and a non-positive epsilon under ValueError.
\<close>

definition DPMechanism_check_inputs ::
  "vector \<Rightarrow> 'f pycallable \<Rightarrow> (py_error + bool) \<times> vector" where
  "DPMechanism_check_inputs self value =
     (case self_epsilon self of
        None \<Rightarrow> (Inl ValueError, self)
      | Some epsilon \<Rightarrow>
          if \<not> epsilon > 0 then (Inl ValueError, self) else (Inr True, self))"

definition check_inputs :: "vector \<Rightarrow> 'f pycallable \<Rightarrow> (py_error + bool) \<times> vector" where
  "check_inputs self value =
     (case DPMechanism_check_inputs self value of
        (Inl e, self1) \<Rightarrow> (Inl e, self1)
      | (Inr _, self1) \<Rightarrow>
          (case value of
             NotCallable \<Rightarrow> (Inl TypeError, self1)
           | Callable _ \<Rightarrow>
               if self_data_sensitivity self1 = None \<or> self_function_sensitivity self1 = None
               then (Inl ValueError, self1)
               else if self_d self1 = None then (Inl ValueError, self1)
               else (Inr True, self1)))"

subsection \<open>The generator\<close>

text \<open>
  \<^verbatim>\<open>np.random\<close> draws from a global generator. Its two samplers are parameters of the
  model: \<open>normal rng loc scale\<close> and \<open>gamma rng shape scale\<close> each draw one sample in a
  state of the generator and return it with the next state. A normal draw is a finite
  number. The Gamma sampler is handed whatever scale the arithmetic produced, so it may
  refuse it with an exception or return a sample that is not finite. Nothing else is
  assumed about them, so every outcome of the draws is covered.
\<close>

record 's np_random =
  normal :: "real \<Rightarrow> real \<Rightarrow> 's \<Rightarrow> real \<times> 's"
  gamma :: "real \<Rightarrow> pyfloat \<Rightarrow> 's \<Rightarrow> (py_error + pyfloat) \<times> 's"

text \<open>A call with \<^verbatim>\<open>size = n\<close> draws \<open>n\<close> samples one after the other.\<close>

fun draws :: "('s \<Rightarrow> real \<times> 's) \<Rightarrow> nat \<Rightarrow> 's \<Rightarrow> real list \<times> 's" where
  "draws f 0 s = ([], s)"
| "draws f (Suc n) s =
     (case f s of (x, s1) \<Rightarrow> (case draws f n s1 of (xs, s2) \<Rightarrow> (x # xs, s2)))"

subsection \<open>Arithmetic on arrays\<close>

text \<open>\<^verbatim>\<open>np.linalg.norm(x, 2)\<close> of a one-dimensional array of finite numbers.\<close>

definition norm2 :: "real list \<Rightarrow> real" where
  "norm2 xs = sqrt (sum_list (map (\<lambda>x. x\<^sup>2) xs))"

definition fsum :: "pyfloat list \<Rightarrow> pyfloat" where
  "fsum xs = foldr fadd xs (Fin 0)"

definition dot :: "pyfloat list \<Rightarrow> pyfloat list \<Rightarrow> pyfloat" where
  "dot x y = fsum (map2 fmul x y)"

text \<open>\<^verbatim>\<open>np.dot\<close> of two one-dimensional arrays raises ValueError when their lengths differ.\<close>

definition np_dot :: "pyfloat list \<Rightarrow> pyfloat list \<Rightarrow> py_error + pyfloat" where
  "np_dot x y = (if length x = length y then Inr (dot x y) else Inl ValueError)"

definition smul :: "pyfloat \<Rightarrow> pyfloat list \<Rightarrow> pyfloat list" where
  "smul k xs = map (\<lambda>x. fmul k x) xs"

definition vadd :: "pyfloat list \<Rightarrow> pyfloat list \<Rightarrow> pyfloat list" where
  "vadd xs ys = map2 fadd xs ys"

text \<open>
  \<^verbatim>\<open>func += x\<close> for a numpy scalar \<open>x\<close>. \<^verbatim>\<open>None\<close> supports no addition. A Python float
  gives a new float. An array is updated in place: a new array is given by its new
  contents, an array kept by the objective is overwritten in the store and stays the
  same object. A Python list has no numeric \<^verbatim>\<open>+=\<close>, so the scalar's reflected addition
  runs: it converts the list to a new array and adds \<open>x\<close> to every element.
\<close>

fun iadd_scalar :: "pyobj \<Rightarrow> pyfloat \<Rightarrow> store \<Rightarrow> (py_error + pyobj) \<times> store" where
  "iadd_scalar PyNone x st = (Inl TypeError, st)"
| "iadd_scalar (PyFloat f) x st = (Inr (PyFloat (fadd f x)), st)"
| "iadd_scalar (NdArray u) x st = (Inr (NdArray (map (\<lambda>y. fadd y x) u)), st)"
| "iadd_scalar (PyList u) x st = (Inr (NdArray (map (\<lambda>y. fadd y x) u)), st)"
| "iadd_scalar (StoredArray a) x st =
     (Inr (StoredArray a), st(a := map (\<lambda>y. fadd y x) (st a)))"

text \<open>
  The sum of an array \<open>u\<close> and a one-dimensional array \<open>v\<close> written into \<open>u\<close>: \<open>v\<close> must
  have the length of \<open>u\<close> or length one.
\<close>

definition add_into :: "pyfloat list \<Rightarrow> pyfloat list \<Rightarrow> py_error + pyfloat list" where
  "add_into u v =
     (if length u = length v then Inr (vadd u v)
      else if length v = 1 then Inr (map (\<lambda>x. fadd x (hd v)) u)
      else Inl ValueError)"

text \<open>
  \<^verbatim>\<open>grad += v\<close> for a one-dimensional array \<open>v\<close>. A scalar is added to every element
  of \<open>v\<close>, which gives a new array. An array is updated in place, in the store when the
  objective keeps it. A list is converted and added with broadcasting in either
  direction, which gives a new array.
\<close>

fun iadd_array :: "pyobj \<Rightarrow> pyfloat list \<Rightarrow> store \<Rightarrow> (py_error + pyobj) \<times> store" where
  "iadd_array PyNone v st = (Inl TypeError, st)"
| "iadd_array (PyFloat f) v st = (Inr (NdArray (map (\<lambda>y. fadd f y) v)), st)"
| "iadd_array (NdArray u) v st =
     (case add_into u v of Inl e \<Rightarrow> (Inl e, st) | Inr u1 \<Rightarrow> (Inr (NdArray u1), st))"
| "iadd_array (PyList u) v st =
     (if length u = length v then (Inr (NdArray (vadd u v)), st)
      else if length v = 1 then (Inr (NdArray (map (\<lambda>x. fadd x (hd v)) u)), st)
      else if length u = 1 then (Inr (NdArray (map (\<lambda>y. fadd (hd u) y) v)), st)
      else (Inl ValueError, st))"
| "iadd_array (StoredArray a) v st =
     (case add_into (st a) v of
        Inl e \<Rightarrow> (Inl e, st)
      | Inr u1 \<Rightarrow> (Inr (StoredArray a), st(a := u1)))"

subsection \<open>The perturbed function\<close>

text \<open>
  \<^verbatim>\<open>if isinstance(func, tuple): func, grad = func else: grad = None\<close>. Unpacking a
  tuple that has not exactly two elements raises ValueError.
\<close>

fun unpack :: "retval \<Rightarrow> py_error + pyobj \<times> pyobj" where
  "unpack (Tuple [func, grad]) = Inr (func, grad)"
| "unpack (Tuple _) = Inl ValueError"
| "unpack (Single func) = Inr (func, PyNone)"

text \<open>
  The body of \<^verbatim>\<open>output_func\<close> after the call of \<^verbatim>\<open>value\<close>, at the point \<open>w\<close> and in the
  store \<open>st\<close>. When a step raises, the updates made before it stay in the store.
\<close>

definition perturb ::
  "pyfloat list \<Rightarrow> pyfloat \<Rightarrow> pyfloat list \<Rightarrow> retval \<Rightarrow> store \<Rightarrow> (py_error + retval) \<times> store" where
  "perturb normed_noisy_vector delta w result st =
     (case unpack result of
        Inl e \<Rightarrow> (Inl e, st)
      | Inr (func, grad) \<Rightarrow>
          (case np_dot normed_noisy_vector w of
             Inl e \<Rightarrow> (Inl e, st)
           | Inr bw \<Rightarrow>
               (case iadd_scalar func bw st of
                  (Inl e, st1) \<Rightarrow> (Inl e, st1)
                | (Inr func1, st1) \<Rightarrow>
                    (case iadd_scalar func1 (fmul (fmul (Fin 0.5) delta) (dot w w)) st1 of
                       (Inl e, st2) \<Rightarrow> (Inl e, st2)
                     | (Inr func2, st2) \<Rightarrow>
                         if grad \<noteq> PyNone then
                           (case iadd_array grad
                                   (vadd normed_noisy_vector (smul delta w)) st2 of
                              (Inl e, st3) \<Rightarrow> (Inl e, st3)
                            | (Inr grad1, st3) \<Rightarrow> (Inr (Tuple [func2, grad1]), st3))
                         else (Inr (Single func2), st2)))))"

text \<open>
  The closure returned by \<^verbatim>\<open>randomise\<close>: \<open>normed_noisy_vector\<close>, \<open>delta\<close> and \<open>value\<close>
  are its captured variables. \<^verbatim>\<open>args[0]\<close> of an empty argument tuple raises IndexError;
  an exception of \<^verbatim>\<open>value\<close> propagates. The closure does not touch the generator.
\<close>

definition output_func :: "pyfloat list \<Rightarrow> pyfloat \<Rightarrow> 's objective \<Rightarrow> 's objective" where
  "output_func normed_noisy_vector delta value args world =
     (case args of
        [] \<Rightarrow> (Inl IndexError, world)
      | w # _ \<Rightarrow>
          (case value args world of
             (Inl e, world1) \<Rightarrow> (Inl e, world1)
           | (Inr func, (s1, st1)) \<Rightarrow>
               (case perturb normed_noisy_vector delta w func st1 of
                  (r, st2) \<Rightarrow> (r, (s1, st2)))))"

subsection \<open>Randomise\<close>

text \<open>
  A number of \<^verbatim>\<open>randomise\<close> is a Python float or a numpy \<^verbatim>\<open>float64\<close>: a result of
  \<^verbatim>\<open>np.log\<close> or \<^verbatim>\<open>np.exp\<close>, and of any arithmetic with one, is a \<^verbatim>\<open>float64\<close>. The
  difference shows in a division by zero, which raises for two Python floats only.
\<close>

datatype scalar = Python_float pyfloat | Numpy_float64 pyfloat

fun one_over :: "scalar \<Rightarrow> py_error + pyfloat" where
  "one_over (Python_float x) = py_truediv (Fin 1) x"
| "one_over (Numpy_float64 x) = Inr (float_div (Fin 1) x)"

text \<open>
  The adjusted budget of \<^verbatim>\<open>randomise\<close>: \<open>(epsilon_p, delta, scale)\<close> from epsilon, the
  function sensitivity \<open>c\<close>, the data sensitivity \<open>g\<close> and the regularisation \<open>a\<close>, which
  are Python floats. In the first line \<open>c * g / (0.5 * a)\<close> is a division of Python
  floats and \<open>epsilon_p\<close> is a \<^verbatim>\<open>float64\<close>. In the fallback branch the divisor
  \<open>np.exp(epsilon / 4) - 1\<close> is a \<^verbatim>\<open>float64\<close>, and \<open>epsilon_p\<close> and with it \<open>scale\<close> are
  Python floats.
\<close>

definition budget ::
  "real \<Rightarrow> pyfloat \<Rightarrow> pyfloat \<Rightarrow> pyfloat \<Rightarrow> py_error + pyfloat \<times> pyfloat \<times> scalar" where
  "budget epsilon c g a =
     (case py_truediv (fmul c g) (fmul (Fin 0.5) a) of
        Inl err \<Rightarrow> Inl err
      | Inr q \<Rightarrow>
          (let epsilon_p = fsub (Fin epsilon) (fmul (Fin 2) (np_log (fadd (Fin 1) q)));
               delta = Fin 0
           in if le_zero epsilon_p
              then (let delta = fsub (float_div (fmul c g)
                                        (fsub (np_exp (Fin (epsilon / 4))) (Fin 1)))
                                     (fmul (Fin 0.5) a);
                        epsilon_p = Fin (epsilon / 2)
                    in case py_truediv (float_div epsilon_p (Fin 2)) g of
                         Inl err \<Rightarrow> Inl err
                       | Inr scale \<Rightarrow> Inr (epsilon_p, delta, Python_float scale))
              else Inr (epsilon_p, delta,
                        Numpy_float64 (float_div (float_div epsilon_p (Fin 2)) g))))"

text \<open>
  The noise vector: \<open>d\<close> standard normal draws, their 2-norm, then \<open>1 / scale\<close>, which
  raises ZeroDivisionError when \<open>scale\<close> is the Python float zero, with the normal draws
  already made; then one Gamma draw with shape \<open>d\<close> and scale \<open>1 / scale\<close> (an array of
  one sample, broadcast over the \<open>d\<close> components), and the draws divided by the norm and
  multiplied by the Gamma sample.
\<close>

definition noise_vector ::
  "'s np_random \<Rightarrow> int \<Rightarrow> scalar \<Rightarrow> 's \<Rightarrow> (py_error + pyfloat list) \<times> 's" where
  "noise_vector rng d scale s =
     (case draws (normal rng 0 1) (nat d) s of
        (normed_noisy_vector, s1) \<Rightarrow>
          (let norm = norm2 normed_noisy_vector in
           case one_over scale of
             Inl err \<Rightarrow> (Inl err, s1)
           | Inr inverse_scale \<Rightarrow>
               (case gamma rng (of_int d) inverse_scale s1 of
                  (Inl err, s2) \<Rightarrow> (Inl err, s2)
                | (Inr noisy_norm, s2) \<Rightarrow>
                    (Inr (map (\<lambda>x. fmul (float_div (Fin x) (Fin norm)) noisy_norm)
                            normed_noisy_vector), s2))))"

text \<open>
  \<^verbatim>\<open>randomise\<close> runs \<^verbatim>\<open>check_inputs\<close>, reads the parameters, derives the budget, draws
  the noise vector and returns the closure. After a successful check every parameter is
  set; reading an unset one would raise TypeError in the arithmetic, which is the last
  branch.
\<close>

definition randomise ::
  "'s np_random \<Rightarrow> vector \<Rightarrow> 's objective pycallable \<Rightarrow> 's
     \<Rightarrow> (py_error + 's objective) \<times> vector \<times> 's" where
  "randomise rng self value s =
     (case check_inputs self value of
        (Inl e, self1) \<Rightarrow> (Inl e, self1, s)
      | (Inr _, self1) \<Rightarrow>
          (case (value, self_epsilon self1, self_function_sensitivity self1,
                 self_data_sensitivity self1, self_d self1) of
             (Callable f, Some epsilon, Some c, Some g, Some d) \<Rightarrow>
               (case budget epsilon c g (self_alpha self1) of
                  Inl err \<Rightarrow> (Inl err, self1, s)
                | Inr (epsilon_p, delta, scale) \<Rightarrow>
                    (case noise_vector rng d scale s of
                       (Inl err, s2) \<Rightarrow> (Inl err, self1, s2)
                     | (Inr normed_noisy_vector, s2) \<Rightarrow>
                         (Inr (output_func normed_noisy_vector delta f), self1, s2)))
           | _ \<Rightarrow> (Inl TypeError, self1, s)))"

subsection \<open>Deterministic objectives\<close>

text \<open>
  An objective is deterministic when it returns the same for the same arguments,
  whatever the state of the generator and of the store, and changes neither.
\<close>

definition deterministic :: "'s objective \<Rightarrow> bool" where
  "deterministic value \<longleftrightarrow>
     (\<forall>args world world'. fst (value args world) = fst (value args world') \<and>
        snd (value args world) = world)"

text \<open>A returned value is fresh when no array in it is one that the objective keeps.\<close>

fun stored :: "pyobj \<Rightarrow> bool" where
  "stored (StoredArray a) = True"
| "stored _ = False"

definition fresh_result :: "retval \<Rightarrow> bool" where
  "fresh_result r = (case r of Tuple xs \<Rightarrow> list_all (\<lambda>x. \<not> stored x) xs | Single x \<Rightarrow> \<not> stored x)"

subsection \<open>A generator for tests\<close>

text \<open>
  A generator that replays a tape of outcomes: a normal draw returns the next entry,
  shifted and scaled, a Gamma draw returns the next entry as it is. It stands for a
  seeded generator in the worked examples below.
\<close>

definition tape_rng :: "real list np_random" where
  "tape_rng =
     \<lparr> normal = (\<lambda>loc scale tape. case tape of [] \<Rightarrow> (loc, []) | x # xs \<Rightarrow> (loc + scale * x, xs)),
       gamma = (\<lambda>shape scale tape.
                  case tape of [] \<Rightarrow> (Inr (fmul (Fin shape) scale), [])
                  | x # xs \<Rightarrow> (Inr (Fin x), xs)) \<rparr>"

subsection \<open>Worked configurations\<close>

text \<open>
  Three configured mechanisms of dimension two. With the defaults, epsilon and function
  sensitivity one, the budget takes its fallback branch; with epsilon two and alpha two
  it keeps the primary one, where the residual delta is zero; the third is built by the
  setters with an infinite data sensitivity. The objectives return zeros: a value with a
  new gradient array, a bare value, a list, a tuple of three, and a value with a
  gradient array that the objective keeps at address \<open>0\<close> of the store.
\<close>

abbreviation fallback_cfg :: vector where
  "fallback_cfg \<equiv>
     Vector_init\<lparr>self_epsilon := Some 1, self_function_sensitivity := Some (Fin 1),
       self_d := Some 2\<rparr>"

abbreviation smooth_cfg :: vector where
  "smooth_cfg \<equiv>
     Vector_init\<lparr>self_epsilon := Some 2, self_function_sensitivity := Some (Fin 1),
       self_d := Some 2, self_alpha := Fin 2\<rparr>"


abbreviation zero_pair :: "real list objective" where
  "zero_pair \<equiv> (\<lambda>args world. (Inr (Tuple [PyFloat (Fin 0), NdArray [Fin 0, Fin 0]]), world))"

abbreviation zero_scalar :: "real list objective" where
  "zero_scalar \<equiv> (\<lambda>args world. (Inr (Single (PyFloat (Fin 0))), world))"

abbreviation zero_list :: "real list objective" where
  "zero_list \<equiv> (\<lambda>args world. (Inr (Single (PyList [Fin 0, Fin 0])), world))"

abbreviation zero_triple :: "real list objective" where
  "zero_triple \<equiv>
     (\<lambda>args world. (Inr (Tuple [PyFloat (Fin 0), NdArray [Fin 0, Fin 0], PyNone]), world))"

abbreviation stored_pair :: "real list objective" where
  "stored_pair \<equiv> (\<lambda>args world. (Inr (Tuple [PyFloat (Fin 0), StoredArray 0]), world))"

abbreviation zero_store :: store where
  "zero_store \<equiv> (\<lambda>a. [Fin 0, Fin 0])"

section \<open>Properties\<close>

subsection \<open>The check and the outcome of randomise\<close>

lemma check_inputs_self: "snd (check_inputs self value) = self"
  by (simp add: check_inputs_def DPMechanism_check_inputs_def split: option.splits pycallable.splits)

lemma check_inputs_ok:
  assumes "fst (check_inputs self value) = Inr b"
  shows "b \<and> (\<exists>f. value = Callable f) \<and> (\<exists>e. self_epsilon self = Some e \<and> 0 < e) \<and>
         (\<exists>c. self_function_sensitivity self = Some c) \<and>
         (\<exists>g. self_data_sensitivity self = Some g) \<and> (\<exists>d. self_d self = Some d)"
  using assms
  by (auto simp add: check_inputs_def DPMechanism_check_inputs_def
      split: option.splits pycallable.splits if_splits)

lemma check_inputs_ready:
  assumes "self_epsilon self = Some e" "0 < e" "self_function_sensitivity self = Some c"
    "self_data_sensitivity self = Some g" "self_d self = Some d"
  shows "check_inputs self (Callable f) = (Inr True, self)"
  using assms by (simp add: check_inputs_def DPMechanism_check_inputs_def)

lemma check_inputs_fails:
  assumes "fst (check_inputs self value) = Inl e"
  shows "randomise rng self value s = (Inl e, self, s)"
proof -
  obtain r self1 where ci: "check_inputs self value = (r, self1)"
    by (cases "check_inputs self value")
  have "self1 = self" using check_inputs_self [of self "value"] ci by simp
  with assms ci show ?thesis by (simp add: randomise_def)
qed

lemma randomise_ready:
  assumes "self_epsilon self = Some e" "0 < e" "self_function_sensitivity self = Some c"
    "self_data_sensitivity self = Some g" "self_d self = Some d"
    "budget e c g (self_alpha self) = Inr (ep, dl, sc)"
  shows "randomise rng self (Callable f) s =
          (case noise_vector rng d sc s of
             (Inl err, s2) \<Rightarrow> (Inl err, self, s2)
           | (Inr b, s2) \<Rightarrow> (Inr (output_func b dl f), self, s2))"
  using assms by (simp add: randomise_def check_inputs_ready)

lemma randomise_returns:
  assumes "self_epsilon self = Some e" "0 < e" "self_function_sensitivity self = Some c"
    "self_data_sensitivity self = Some g" "self_d self = Some d"
    "budget e c g (self_alpha self) = Inr (ep, dl, sc)"
    "noise_vector rng d sc s = (Inr b, s2)"
  shows "randomise rng self (Callable f) s = (Inr (output_func b dl f), self, s2)"
  using randomise_ready [OF assms(1-6), of rng f s] assms(7) by simp

lemma randomise_self:
  "fst (snd (randomise rng self value s)) = self"
proof -
  obtain r self1 where ci: "check_inputs self value = (r, self1)"
    by (cases "check_inputs self value")
  have "self1 = self" using check_inputs_self [of self "value"] ci by simp
  with ci show ?thesis
    by (simp add: randomise_def split: sum.splits prod.splits pycallable.splits option.splits)
qed

lemma draws_length: "draws f n s = (xs, s') \<Longrightarrow> length xs = n"
  by (induction n arbitrary: s xs s') (auto split: prod.splits)

lemma sum_list_sq_div:
  "sum_list (map (\<lambda>x. (x / n)\<^sup>2) xs) = sum_list (map (\<lambda>x. x\<^sup>2) xs) / (n::real)\<^sup>2"
  by (induction xs) (simp_all add: power_divide add_divide_distrib)

lemma norm2_unit:
  assumes "norm2 z \<noteq> 0"
  shows "norm2 (map (\<lambda>x. x / norm2 z) z) = 1"
proof -
  let ?q = "sum_list (map (\<lambda>x. x\<^sup>2) z)"
  have nonneg: "0 \<le> ?q" by (rule sum_list_nonneg) auto
  have sq: "(norm2 z)\<^sup>2 = ?q" using nonneg by (simp add: norm2_def)
  have "?q \<noteq> 0" using assms by (auto simp add: norm2_def)
  then have "sum_list (map (\<lambda>x. (x / norm2 z)\<^sup>2) z) = 1"
    by (simp add: sum_list_sq_div sq)
  then show ?thesis by (simp add: norm2_def comp_def)
qed

lemma fsum_Fin: "fsum (map Fin xs) = Fin (sum_list xs)"
  by (induction xs) (simp_all add: fsum_def)

lemma dot_Fin: "dot (map Fin x) (map Fin y) = Fin (sum_list (map2 (*) x y))"
proof (induction x arbitrary: y)
  case Nil
  then show ?case by (simp add: dot_def fsum_def)
next
  case (Cons a x)
  show ?case
  proof (cases y)
    case Nil
    then show ?thesis by (simp add: dot_def fsum_def)
  next
    case (Cons b y')
    with Cons.IH [of y'] show ?thesis by (simp add: dot_def fsum_def)
  qed
qed

lemma budget_finite:
  assumes "0 < e" and "0 < c" and "0 < g" and "0 < a"
  shows "budget e (Fin c) (Fin g) (Fin a) =
     (if e - 2 * ln (1 + c * g / (0.5 * a)) \<le> 0
      then Inr (Fin (e / 2), Fin (c * g / (exp (e / 4) - 1) - 0.5 * a),
                Python_float (Fin (e / 2 / (2 * g))))
      else Inr (Fin (e - 2 * ln (1 + c * g / (0.5 * a))), Fin 0,
                Numpy_float64 (Fin ((e - 2 * ln (1 + c * g / (0.5 * a))) / (2 * g)))))"
proof -
  have q: "0 < 1 + c * g / (0.5 * a)" using assms by (simp add: add_pos_nonneg)
  have ex: "exp (e / 4) - 1 \<noteq> 0" using assms(1) by simp
  show ?thesis using assms q ex
    by (simp add: budget_def py_truediv_def fsub_def Let_def)
qed

lemma ln_201: "1 \<le> 2 * ln (201::real)"
proof -
  have "exp (1::real) < 201" using exp_le by (smt (verit))
  hence "ln (exp 1) < ln (201::real)" by (subst ln_less_cancel_iff) auto
  thus ?thesis by simp
qed

lemma budget_example:
  "budget 1 (Fin 1) (Fin 1) (Fin 0.01) =
     Inr (Fin 0.5, Fin (1 / (exp 0.25 - 1) - 0.005), Python_float (Fin 0.25))"
proof -
  have p: "(0::real) < 1" "(0::real) < 0.01" by simp_all
  show ?thesis using budget_finite [OF p(1) p(1) p(1) p(2)] ln_201 by simp
qed

lemma smooth_budget:
  "budget 2 (Fin 1) (Fin 1) (Fin 2) =
     Inr (Fin (2 - 2 * ln 2), Fin 0, Numpy_float64 (Fin ((2 - 2 * ln 2) / 2)))"
proof -
  have p: "(0::real) < 2" "(0::real) < 1" by simp_all
  have "\<not> (2 - 2 * ln (2::real) \<le> 0)" using ln_2_less_1 by simp
  then show ?thesis using budget_finite [OF p(1) p(2) p(2) p(1)] by simp
qed

subsection \<open>Float arithmetic and the worked examples\<close>

lemma fmul_commute: "fmul x y = fmul y x"
  by (cases x; cases y) (simp_all add: mult.commute)

lemma fadd_commute: "fadd x y = fadd y x"
  by (cases x; cases y) (simp_all add: add.commute)

lemma one_over_finite:
  assumes "sc \<noteq> 0"
  shows "one_over (Python_float (Fin sc)) = Inr (Fin (1 / sc))"
    and "one_over (Numpy_float64 (Fin sc)) = Inr (Fin (1 / sc))"
  using assms by (simp_all add: py_truediv_def)

lemma sqrt_25: "sqrt 25 = 5"
  by (rule real_sqrt_unique) simp_all

lemma example_draws:
  "draws (normal tape_rng 0 1) (nat 2) [3, - 4, 1 / 2] = ([3, - 4], [1 / 2])"
  by (simp add: numeral_2_eq_2 tape_rng_def)

lemma example_noise:
  assumes "one_over scale = Inr inverse_scale"
  shows "noise_vector tape_rng 2 scale [3, - 4, 1 / 2] = (Inr [Fin (3 / 10), Fin (- (2 / 5))], [])"
proof -
  have n: "norm2 [3, - 4] = 5" by (simp add: norm2_def sqrt_25)
  have g: "gamma tape_rng 2 inverse_scale [1 / 2] = (Inr (Fin (1 / 2)), [])"
    by (simp add: tape_rng_def)
  show ?thesis unfolding noise_vector_def example_draws by (simp add: n g assms Let_def)
qed

lemma smooth_cfg_fields:
  "self_epsilon smooth_cfg = Some 2" "self_function_sensitivity smooth_cfg = Some (Fin 1)"
  "self_data_sensitivity smooth_cfg = Some (Fin 1)" "self_d smooth_cfg = Some 2"
  "self_alpha smooth_cfg = Fin 2"
  by (simp_all add: Vector_init_def DPMechanism_init_def)

lemma fallback_cfg_fields:
  "self_epsilon fallback_cfg = Some 1" "self_function_sensitivity fallback_cfg = Some (Fin 1)"
  "self_data_sensitivity fallback_cfg = Some (Fin 1)" "self_d fallback_cfg = Some 2"
  "self_alpha fallback_cfg = Fin (1 / 100)"
  by (simp_all add: Vector_init_def DPMechanism_init_def)



lemma smooth_budget_cfg:
  "budget 2 (Fin 1) (Fin 1) (self_alpha smooth_cfg) =
     Inr (Fin (2 - 2 * ln 2), Fin 0, Numpy_float64 (Fin ((2 - 2 * ln 2) / 2)))"
  using smooth_budget by (simp add: smooth_cfg_fields)

lemma smooth_noise:
  "noise_vector tape_rng 2 (Numpy_float64 (Fin ((2 - 2 * ln 2) / 2))) [3, - 4, 1 / 2] =
     (Inr [Fin (3 / 10), Fin (- (2 / 5))], [])"
  by (rule example_noise [of _ "float_div (Fin 1) (Fin ((2 - 2 * ln 2) / 2))"]) simp

subsection \<open>The closure\<close>

text \<open>On finite numbers the float arithmetic of the closure is that of the reals.\<close>

lemma vadd_Fin: "vadd (map Fin x) (map Fin y) = map Fin (map2 (+) x y)"
proof (induction x arbitrary: y)
  case Nil
  then show ?case by (simp add: vadd_def)
next
  case (Cons a x)
  show ?case
  proof (cases y)
    case Nil
    then show ?thesis by (simp add: vadd_def)
  next
    case (Cons b y')
    with Cons.IH [of y'] show ?thesis by (simp add: vadd_def)
  qed
qed

lemma smul_Fin: "smul (Fin k) (map Fin x) = map Fin (map (\<lambda>y. k * y) x)"
  by (simp add: smul_def)

lemma closure_terms_finite:
  "fadd (fadd (Fin f) (dot (map Fin b) (map Fin w)))
        (fmul (fmul (Fin 0.5) (Fin delta)) (dot (map Fin w) (map Fin w))) =
     Fin (f + sum_list (map2 (*) b w) + 0.5 * delta * sum_list (map2 (*) w w))"
  "vadd (map Fin grad) (vadd (map Fin b) (smul (Fin delta) (map Fin w))) =
     map Fin (map2 (+) grad (map2 (+) b (map (\<lambda>y. delta * y) w)))"
  by (simp add: dot_Fin) (simp only: smul_Fin vadd_Fin)

lemma unpack_not_pair: "length xs \<noteq> 2 \<Longrightarrow> unpack (Tuple xs) = Inl ValueError"
  by (cases "Tuple xs" rule: unpack.cases) auto

lemma output_func_call:
  assumes "value (w # rest) world = (Inr r, (t', st'))"
  shows "output_func b delta value (w # rest) world =
           (case perturb b delta w r st' of (r', st2) \<Rightarrow> (r', (t', st2)))"
  using assms by (simp add: output_func_def)

lemma output_func_generator:
  "fst (snd (output_func b delta value (w # rest) world)) = fst (snd (value (w # rest) world))"
  by (simp add: output_func_def split: prod.splits sum.splits)

lemma perturb_pair:
  assumes "length w = length b" "length grad = length w"
  shows "perturb b delta w (Tuple [PyFloat f, NdArray grad]) st =
           (Inr (Tuple [PyFloat (fadd (fadd f (dot b w)) (fmul (fmul (Fin 0.5) delta) (dot w w))),
                        NdArray (vadd grad (vadd b (smul delta w)))]), st)"
  using assms by (simp add: perturb_def np_dot_def add_into_def vadd_def smul_def)

lemma perturb_stored:
  assumes "length w = length b" "length (st a) = length w"
  shows "perturb b delta w (Tuple [PyFloat f, StoredArray a]) st =
           (Inr (Tuple [PyFloat (fadd (fadd f (dot b w)) (fmul (fmul (Fin 0.5) delta) (dot w w))),
                        StoredArray a]),
            st(a := vadd (st a) (vadd b (smul delta w))))"
  using assms by (simp add: perturb_def np_dot_def add_into_def vadd_def smul_def)

lemma perturb_scalar:
  assumes "length w = length b"
  shows "perturb b delta w (Single (PyFloat f)) st =
           (Inr (Single (PyFloat (fadd (fadd f (dot b w))
                                    (fmul (fmul (Fin 0.5) delta) (dot w w))))), st)"
  using assms by (simp add: perturb_def np_dot_def)

lemma perturb_single:
  assumes "perturb b delta w (Single x) st = (Inr r, st')"
  shows "\<exists>x1 x2 st1. iadd_scalar x (dot b w) st = (Inr x1, st1) \<and>
           iadd_scalar x1 (fmul (fmul (Fin 0.5) delta) (dot w w)) st1 = (Inr x2, st') \<and>
           r = Single x2"
  using assms
  by (auto simp add: perturb_def np_dot_def split: sum.splits if_splits prod.splits)

lemma perturb_list2:
  assumes "length w = length b"
  shows "perturb b delta w (Single (PyList [f, g])) st =
           (Inr (Single (NdArray
              [fadd (fadd f (dot b w)) (fmul (fmul (Fin 0.5) delta) (dot w w)),
               fadd (fadd g (dot b w)) (fmul (fmul (Fin 0.5) delta) (dot w w))])), st)"
  using assms by (simp add: perturb_def np_dot_def)

lemma perturb_tuple:
  assumes "perturb b delta w (Tuple [x, y]) st = (Inr r, st')" and "y \<noteq> PyNone"
  shows "\<exists>x2 y1 st2. r = Tuple [x2, y1] \<and>
           iadd_array y (vadd b (smul delta w)) st2 = (Inr y1, st')"
  using assms
  by (auto simp add: perturb_def split: sum.splits if_splits prod.splits)

text \<open>
  When the objective is deterministic and returns fresh values only, the closure is
  deterministic too: its result does not depend on the generator or on the store, and it
  leaves both as they were.
\<close>

lemma iadd_scalar_fresh:
  assumes "\<not> stored x"
  shows "iadd_scalar x v st = (fst (iadd_scalar x v st'), st)"
    and "fst (iadd_scalar x v st) = Inr x1 \<Longrightarrow> \<not> stored x1"
  using assms by (cases x; auto)+

lemma iadd_array_fresh:
  assumes "\<not> stored x"
  shows "iadd_array x v st = (fst (iadd_array x v st'), st)"
  using assms by (cases x) (auto split: sum.splits)

lemma perturb_fresh:
  assumes "fresh_result r"
  shows "perturb b delta w r st = (fst (perturb b delta w r st'), st)"
proof (cases "unpack r")
  case (Inl e)
  then show ?thesis by (simp add: perturb_def)
next
  case (Inr p)
  obtain func grad where p: "p = (func, grad)" by (cases p)
  from Inr p assms have f: "\<not> stored func" and g: "\<not> stored grad"
    by (cases r rule: unpack.cases; simp add: fresh_result_def)+
  show ?thesis
  proof (cases "np_dot b w")
    case (Inl e)
    with Inr p show ?thesis by (simp add: perturb_def)
  next
    case bw: (Inr bw)
    note a1 = iadd_scalar_fresh(1) [OF f, of bw st st']
    show ?thesis
    proof (cases "fst (iadd_scalar func bw st')")
      case (Inl e)
      with Inr p bw a1 iadd_scalar_fresh(1) [OF f, of bw st' st'] show ?thesis
        by (simp add: perturb_def)
    next
      case f1: (Inr func1)
      have nf1: "\<not> stored func1" using iadd_scalar_fresh(2) [OF f, of bw st' func1] f1 by simp
      let ?q = "fmul (fmul (Fin 0.5) delta) (dot w w)"
      note a2 = iadd_scalar_fresh(1) [OF nf1, of ?q st st']
      note a1' = iadd_scalar_fresh(1) [OF f, of bw st' st']
      note a2' = iadd_scalar_fresh(1) [OF nf1, of ?q st' st']
      show ?thesis
      proof (cases "fst (iadd_scalar func1 ?q st')")
        case (Inl e)
        with Inr p bw a1 a1' f1 a2 a2' show ?thesis by (simp add: perturb_def)
      next
        case f2: (Inr func2)
        note a3 = iadd_array_fresh [OF g, of "vadd b (smul delta w)" st st']
        note a3' = iadd_array_fresh [OF g, of "vadd b (smul delta w)" st' st']
        show ?thesis
        proof (cases "fst (iadd_array grad (vadd b (smul delta w)) st')")
          case (Inl e)
          with Inr p bw a1 a1' f1 a2 a2' f2 a3 a3' show ?thesis by (simp add: perturb_def)
        next
          case g1: (Inr grad1)
          with Inr p bw a1 a1' f1 a2 a2' f2 a3 a3' show ?thesis by (simp add: perturb_def)
        qed
      qed
    qed
  qed
qed

lemma output_func_fresh_deterministic:
  assumes "deterministic value"
    and "\<And>args world r. fst (value args world) = Inr r \<Longrightarrow> fresh_result r"
  shows "deterministic (output_func b delta value)"
  unfolding deterministic_def
proof (intro allI conjI)
  fix args and world world' :: "'a \<times> store"
  from assms(1) have v: "fst (value args world) = fst (value args world')"
    and w: "snd (value args world) = world" and w': "snd (value args world') = world'"
    unfolding deterministic_def by blast+
  show "snd (output_func b delta value args world) = world"
  proof (cases args)
    case Nil
    then show ?thesis by (simp add: output_func_def)
  next
    case (Cons x rest)
    show ?thesis
    proof (cases "fst (value args world)")
      case (Inl e)
      with Cons w show ?thesis
        by (cases "value args world") (simp add: output_func_def)
    next
      case (Inr r)
      then have fr: "fresh_result r" by (rule assms(2))
      obtain t st where ws: "world = (t, st)" by (cases world)
      from Inr w ws have "value args world = (Inr r, (t, st))"
        by (cases "value args world") simp
      moreover have "snd (perturb b delta x r st) = st"
        using perturb_fresh [OF fr, of b delta x st st] by (metis snd_conv)
      ultimately show ?thesis using Cons ws
        by (auto simp add: output_func_def split: prod.splits)
    qed
  qed
  show "fst (output_func b delta value args world) = fst (output_func b delta value args world')"
  proof (cases args)
    case Nil
    then show ?thesis by (simp add: output_func_def)
  next
    case (Cons x rest)
    show ?thesis
    proof (cases "fst (value args world)")
      case (Inl e)
      with Cons v show ?thesis
        by (cases "value args world"; cases "value args world'") (auto simp add: output_func_def)
    next
      case (Inr r)
      then have fr: "fresh_result r" by (rule assms(2))
      obtain t st where ws: "world = (t, st)" by (cases world)
      obtain t' st' where ws': "world' = (t', st')" by (cases world')
      from Inr w ws have 1: "value args world = (Inr r, (t, st))"
        by (cases "value args world") simp
      from Inr v w' ws' have 2: "value args world' = (Inr r, (t', st'))"
        by (cases "value args world'") simp
      have "fst (perturb b delta x r st) = fst (perturb b delta x r st')"
        using perturb_fresh [OF fr, of b delta x st st'] by (metis fst_conv)
      with Cons 1 2 ws ws' show ?thesis
        by (auto simp add: output_func_def split: prod.splits)
    qed
  qed
qed


section \<open>The claims\<close>

subsection \<open>Setters\<close>

text \<open>
  Claim C5. \<^verbatim>\<open>set_epsilon_delta(epsilon, delta)\<close> fails with ValueError for every
  \<open>delta\<close> other than zero, whatever \<open>epsilon\<close> is, since the test of \<open>delta\<close> comes
  first; with \<open>delta = 0\<close> it fails with ValueError exactly when \<open>epsilon \<le> 0\<close>, and
  otherwise succeeds and stores both values.
\<close>

theorem set_epsilon_delta_kinds:
  "(delta \<noteq> IsReal 0 \<longrightarrow> set_epsilon_delta self epsilon delta = (Inl ValueError, self)) \<and>
   (fst (set_epsilon_delta self epsilon (IsReal 0)) = Inl ValueError \<longleftrightarrow> epsilon \<le> 0) \<and>
   (0 < epsilon \<longrightarrow>
      set_epsilon_delta self epsilon (IsReal 0) =
        (Inr (), self\<lparr>self_epsilon := Some epsilon, self_delta := Some 0\<rparr>))"
  by (cases delta) (auto simp add: set_epsilon_delta_def DPMechanism_set_epsilon_delta_def)

theorem set_epsilon_delta_kinds_witness:
  "IsReal 1 \<noteq> IsReal (0::real) \<and>
   set_epsilon_delta Vector_init (- 3) (IsReal 1) = (Inl ValueError, Vector_init) \<and>
   fst (set_epsilon_delta Vector_init 0 (IsReal 0)) = Inl ValueError \<and>
   (0::real) < 2 \<and>
   set_epsilon_delta Vector_init 2 (IsReal 0) =
     (Inr (), Vector_init\<lparr>self_epsilon := Some 2, self_delta := Some 0\<rparr>)"
  using set_epsilon_delta_kinds [of "IsReal 1" Vector_init "- 3"]
    set_epsilon_delta_kinds [of "IsReal 1" Vector_init 0]
    set_epsilon_delta_kinds [of "IsReal 1" Vector_init 2]
  by simp

text \<open>
  On a finite number \<^verbatim>\<open>set_dimension\<close> succeeds exactly when \<open>d\<close> is close to its
  truncation and at least one, fails with ValueError when it is close to its truncation
  and below one, and with TypeError otherwise. The tolerance is one-sided: a number just
  below an integer is truncated to the integer before it and is refused.
\<close>

lemma set_dimension_finite:
  "set_dimension self (IsReal (Fin r)) =
     (if np_isclose r (of_int (trunc r)) \<and> 1 \<le> r
      then (Inr (), self\<lparr>self_d := Some (trunc r)\<rparr>)
      else if np_isclose r (of_int (trunc r)) then (Inl ValueError, self)
      else (Inl TypeError, self))"
  by simp

lemma set_dimension_examples:
  "set_dimension self (IsReal (Fin 3)) = (Inr (), self\<lparr>self_d := Some 3\<rparr>)"
  "set_dimension self (IsReal (Fin 2.00001)) = (Inr (), self\<lparr>self_d := Some 2\<rparr>)"
  "set_dimension self (IsReal (Fin 2.5)) = (Inl TypeError, self)"
  "set_dimension self (IsReal (Fin 1.9999999999)) = (Inl TypeError, self)"
  "set_dimension self (IsReal (Fin 0)) = (Inl ValueError, self)"
  "set_dimension self (IsReal (Fin (- 2))) = (Inl ValueError, self)"
  by (simp_all add: np_isclose_def trunc_def)

text \<open>
  Claim C4 says that \<^verbatim>\<open>set_dimension(d)\<close> fails with TypeError for every \<open>d\<close> that is
  not integer-valued. On an infinite float the conversion \<^verbatim>\<open>int(d)\<close> raises
  OverflowError, and on NaN it raises ValueError, before the test of closeness runs.
\<close>

theorem set_dimension_non_finite:
  "set_dimension Vector_init (IsReal PInf) = (Inl OverflowError, Vector_init) \<and>
   set_dimension Vector_init (IsReal NInf) = (Inl OverflowError, Vector_init) \<and>
   set_dimension Vector_init (IsReal NaN) = (Inl ValueError, Vector_init)"
  by simp

text \<open>
  Claim C10. Each of \<^verbatim>\<open>set_sensitivity\<close>, \<^verbatim>\<open>set_alpha\<close> and \<^verbatim>\<open>set_dimension\<close>
  validates before it assigns: whenever one of them fails, the object is as it was
  before the call. In particular \<^verbatim>\<open>set_sensitivity\<close> with a valid function sensitivity
  and an invalid data sensitivity stores neither value.
\<close>

theorem setters_fail_unchanged:
  "(fst (set_sensitivity self fs ds) = Inl e \<longrightarrow> snd (set_sensitivity self fs ds) = self) \<and>
   (fst (set_alpha self al) = Inl e \<longrightarrow> snd (set_alpha self al) = self) \<and>
   (fst (set_dimension self dm) = Inl e \<longrightarrow> snd (set_dimension self dm) = self) \<and>
   (0 < c \<and> g \<le> 0 \<longrightarrow> set_sensitivity self (IsReal (Fin c)) (IsReal (Fin g)) = (Inl ValueError, self)) \<and>
   (0 < c \<longrightarrow> set_sensitivity self (IsReal (Fin c)) NotReal = (Inl TypeError, self))"
proof (intro conjI impI)
  assume "fst (set_sensitivity self fs ds) = Inl e"
  then show "snd (set_sensitivity self fs ds) = self"
    by (cases fs; cases ds) (auto simp add: set_sensitivity_def split: if_splits)
next
  assume "fst (set_alpha self al) = Inl e"
  then show "snd (set_alpha self al) = self"
    by (cases al) (auto simp add: set_alpha_def split: if_splits)
next
  assume "fst (set_dimension self dm) = Inl e"
  then show "snd (set_dimension self dm) = self"
    by (cases "(self, dm)" rule: set_dimension.cases) (auto split: if_splits)
next
  assume "0 < c \<and> g \<le> 0"
  then show "set_sensitivity self (IsReal (Fin c)) (IsReal (Fin g)) = (Inl ValueError, self)"
    by (simp add: set_sensitivity_def)
next
  show "set_sensitivity self (IsReal (Fin c)) NotReal = (Inl TypeError, self)"
    by (simp add: set_sensitivity_def)
qed

theorem setters_fail_unchanged_witness:
  "fst (set_sensitivity Vector_init (IsReal (Fin 2)) (IsReal (Fin (- 1)))) = Inl ValueError \<and>
   snd (set_sensitivity Vector_init (IsReal (Fin 2)) (IsReal (Fin (- 1)))) = Vector_init \<and>
   fst (set_alpha Vector_init NotReal) = Inl TypeError \<and>
   snd (set_alpha Vector_init NotReal) = Vector_init \<and>
   fst (set_dimension Vector_init (IsReal (Fin 0))) = Inl ValueError \<and>
   snd (set_dimension Vector_init (IsReal (Fin 0))) = Vector_init \<and>
   (0::real) < 2 \<and> (- 1::real) \<le> 0 \<and>
   self_function_sensitivity (snd (set_sensitivity Vector_init (IsReal (Fin 2)) (IsReal (Fin (- 1))))) = None \<and>
   self_data_sensitivity (snd (set_sensitivity Vector_init (IsReal (Fin 2)) (IsReal (Fin (- 1))))) = Some (Fin 1) \<and>
   set_sensitivity Vector_init (IsReal (Fin 2)) NotReal = (Inl TypeError, Vector_init)"
proof -
  have a: "fst (set_sensitivity Vector_init (IsReal (Fin 2)) (IsReal (Fin (- 1)))) = Inl ValueError"
    by (simp add: set_sensitivity_def)
  have b: "fst (set_alpha Vector_init NotReal) = Inl TypeError"
    by (simp add: set_alpha_def)
  have c: "fst (set_dimension Vector_init (IsReal (Fin 0))) = Inl ValueError"
    by (simp add: np_isclose_def trunc_def)
  have i: "self_function_sensitivity Vector_init = None" "self_data_sensitivity Vector_init = Some (Fin 1)"
    by (simp_all add: Vector_init_def DPMechanism_init_def)
  from setters_fail_unchanged [of Vector_init "IsReal (Fin 2)" "IsReal (Fin (- 1))" ValueError NotReal "IsReal (Fin 0)" 2 "- 1"]
    setters_fail_unchanged [of Vector_init "IsReal (Fin 2)" "IsReal (Fin (- 1))" TypeError NotReal "IsReal (Fin 0)" 2 "- 1"]
    a b c i
  show ?thesis by simp
qed

subsection \<open>The aggregate check and failures of randomise\<close>

text \<open>
  Claim C6 as stated fails on the order of the checks: with epsilon set and the
  sensitivities and the dimension unset, \<^verbatim>\<open>randomise\<close> of a value that is not callable
  fails with TypeError, not with ValueError; and with epsilon unset, \<^verbatim>\<open>check_inputs\<close>
  of a value that is not callable fails in the base check with ValueError, not with
  TypeError.
\<close>

theorem check_inputs_order_counterexample:
  "self_epsilon (snd (set_epsilon_delta Vector_init 1 (IsReal 0))) = Some 1 \<and>
   self_function_sensitivity (snd (set_epsilon_delta Vector_init 1 (IsReal 0))) = None \<and>
   self_d (snd (set_epsilon_delta Vector_init 1 (IsReal 0))) = None \<and>
   fst (randomise tape_rng (snd (set_epsilon_delta Vector_init 1 (IsReal 0))) NotCallable
          [3, - 4, 1 / 2]) = Inl TypeError \<and>
   self_epsilon Vector_init = None \<and>
   fst (check_inputs Vector_init (NotCallable :: real list objective pycallable))
     = Inl ValueError"
  by (simp add: randomise_def check_inputs_def DPMechanism_check_inputs_def Vector_init_def
      DPMechanism_init_def set_epsilon_delta_def DPMechanism_set_epsilon_delta_def)

text \<open>
  Claim C6, amended. \<^verbatim>\<open>randomise(value)\<close> with a callable value fails with ValueError
  whenever a sensitivity or the dimension is unset, whether epsilon is set or not;
  \<^verbatim>\<open>check_inputs(value)\<close> fails with TypeError when the value is not callable and
  epsilon is set and positive; it returns true when the value is callable and epsilon,
  the sensitivities and the dimension are all set; and it never changes the object.
\<close>

theorem check_inputs_order:
  "(self_function_sensitivity self = None \<or> self_data_sensitivity self = None \<or> self_d self = None
      \<longrightarrow> fst (randomise (rng :: 's np_random) self (Callable f) s) = Inl ValueError) \<and>
   ((\<exists>e. self_epsilon self = Some e \<and> 0 < e)
      \<longrightarrow> fst (check_inputs self (NotCallable :: 's objective pycallable)) = Inl TypeError) \<and>
   ((\<exists>e. self_epsilon self = Some e \<and> 0 < e) \<and> self_function_sensitivity self \<noteq> None \<and>
    self_data_sensitivity self \<noteq> None \<and> self_d self \<noteq> None
      \<longrightarrow> fst (check_inputs self (Callable f)) = Inr True) \<and>
   snd (check_inputs self value) = self"
proof (intro conjI impI)
  assume u: "self_function_sensitivity self = None \<or> self_data_sensitivity self = None \<or> self_d self = None"
  then have "fst (check_inputs self (Callable f)) = Inl ValueError"
    by (auto simp add: check_inputs_def DPMechanism_check_inputs_def split: option.splits)
  moreover have "snd (check_inputs self (Callable f)) = self" by (rule check_inputs_self)
  ultimately have "check_inputs self (Callable f) = (Inl ValueError, self)"
    by (simp add: prod_eq_iff)
  then show "fst (randomise rng self (Callable f) s) = Inl ValueError"
    by (simp add: randomise_def)
next
  assume "\<exists>e. self_epsilon self = Some e \<and> 0 < e"
  then show "fst (check_inputs self (NotCallable :: 's objective pycallable)) = Inl TypeError"
    by (auto simp add: check_inputs_def DPMechanism_check_inputs_def)
next
  assume "(\<exists>e. self_epsilon self = Some e \<and> 0 < e) \<and> self_function_sensitivity self \<noteq> None \<and>
    self_data_sensitivity self \<noteq> None \<and> self_d self \<noteq> None"
  then show "fst (check_inputs self (Callable f)) = Inr True"
    by (auto simp add: check_inputs_def DPMechanism_check_inputs_def)
next
  show "snd (check_inputs self value) = self" by (rule check_inputs_self)
qed

theorem check_inputs_order_witness:
  "self_d Vector_init = None \<and>
   fst (randomise tape_rng Vector_init
          (Callable zero_scalar) [3, - 4, 1 / 2]) = Inl ValueError \<and>
   self_epsilon (Vector_init\<lparr>self_epsilon := Some 1\<rparr>) = Some 1 \<and> (0::real) < 1 \<and>
   fst (check_inputs (Vector_init\<lparr>self_epsilon := Some 1\<rparr>)
          (NotCallable :: real list objective pycallable)) = Inl TypeError \<and>
   fst (check_inputs
          (Vector_init\<lparr>self_epsilon := Some 1, self_function_sensitivity := Some (Fin 1), self_d := Some 2\<rparr>)
          (Callable zero_scalar)) = Inr True \<and>
   snd (check_inputs Vector_init (NotCallable :: real list objective pycallable)) = Vector_init"
proof -
  let ?f = zero_scalar
  have i: "self_d Vector_init = None" "self_data_sensitivity Vector_init = Some (Fin 1)"
    by (simp_all add: Vector_init_def DPMechanism_init_def)
  let ?n = "NotCallable :: real list objective pycallable"
  from check_inputs_order [of Vector_init tape_rng ?f "[3, - 4, 1 / 2]" ?n]
    check_inputs_order [of "Vector_init\<lparr>self_epsilon := Some 1\<rparr>" tape_rng ?f "[3, - 4, 1 / 2]" ?n]
    check_inputs_order [of "Vector_init\<lparr>self_epsilon := Some 1, self_function_sensitivity := Some (Fin 1), self_d := Some 2\<rparr>"
      tape_rng ?f "[3, - 4, 1 / 2]" ?n] i
  show ?thesis by simp
qed


subsection \<open>The noise vector\<close>

text \<open>
  Claim C8. For every dimension \<open>d \<ge> 1\<close> and every outcome \<open>z\<close> of the \<open>d\<close> standard
  normal draws with a norm other than zero, \<open>z\<close> divided by its 2-norm has 2-norm one,
  and the noise vector is that direction multiplied by the single Gamma sample drawn
  with shape \<open>d\<close> and scale \<open>1 / scale\<close>.
\<close>

theorem noise_vector_unit_direction:
  assumes "1 \<le> d"
    and "draws (normal rng 0 1) (nat d) s = (z, s1)"
    and "norm2 z \<noteq> 0"
    and "one_over scale = Inr inverse_scale"
    and "gamma rng (of_int d) inverse_scale s1 = (Inr noisy_norm, s2)"
  shows "length z = nat d \<and> norm2 (map (\<lambda>x. x / norm2 z) z) = 1 \<and>
         noise_vector rng d scale s =
           (Inr (smul noisy_norm (map Fin (map (\<lambda>x. x / norm2 z) z))), s2) \<and>
         (\<forall>sc. (scale = Python_float (Fin sc) \<or> scale = Numpy_float64 (Fin sc)) \<and> sc \<noteq> 0
            \<longrightarrow> inverse_scale = Fin (1 / sc))"
proof (intro conjI allI impI)
  show "length z = nat d" using assms(2) by (rule draws_length)
  show "norm2 (map (\<lambda>x. x / norm2 z) z) = 1" using assms(3) by (rule norm2_unit)
  show "noise_vector rng d scale s =
           (Inr (smul noisy_norm (map Fin (map (\<lambda>x. x / norm2 z) z))), s2)"
    using assms(3) by (simp add: noise_vector_def assms(2,4,5) smul_def fmul_commute comp_def)
next
  fix sc
  assume "(scale = Python_float (Fin sc) \<or> scale = Numpy_float64 (Fin sc)) \<and> sc \<noteq> 0"
  with assms(4) show "inverse_scale = Fin (1 / sc)"
    by (auto simp add: py_truediv_def)
qed

theorem noise_vector_unit_direction_witness:
  "(1::int) \<le> 2 \<and>
   draws (normal tape_rng 0 1) (nat 2) [3, - 4, 1 / 2] = ([3, - 4], [1 / 2]) \<and>
   norm2 [3, - 4] \<noteq> 0 \<and>
   one_over (Python_float (Fin (1 / 4))) = Inr (Fin 4) \<and>
   gamma tape_rng (of_int 2) (Fin 4) [1 / 2] = (Inr (Fin (1 / 2)), []) \<and>
   norm2 (map (\<lambda>x. x / norm2 [3, - 4]) [3, - 4]) = 1 \<and>
   noise_vector tape_rng 2 (Python_float (Fin (1 / 4))) [3, - 4, 1 / 2] =
     (Inr (smul (Fin (1 / 2)) (map Fin (map (\<lambda>x. x / norm2 [3, - 4]) [3, - 4]))), [])"
proof -
  have n: "norm2 [3, - 4] \<noteq> 0" by (simp add: norm2_def sqrt_25)
  have o: "one_over (Python_float (Fin (1 / 4))) = Inr (Fin 4)"
    by (simp add: py_truediv_def)
  have g: "gamma tape_rng (of_int 2) (Fin 4) [1 / 2] = (Inr (Fin (1 / 2)), [])"
    by (simp add: tape_rng_def)
  have l: "(1::int) \<le> 2" by simp
  from noise_vector_unit_direction [OF l example_draws n o g] example_draws n o g
  show ?thesis by simp
qed

subsection \<open>The adjusted budget\<close>

text \<open>
  Claim C1. For positive epsilon \<open>e\<close>, function sensitivity \<open>c\<close>, data sensitivity
  \<open>g\<close> and regularisation \<open>a\<close>, \<^verbatim>\<open>randomise\<close> derives
  \<open>epsilonPrime = e - 2 ln (1 + c g / (0.5 a))\<close> with residual delta zero; when that is
  not positive, the residual delta is \<open>c g / (exp (e / 4) - 1) - 0.5 a\<close> and
  \<open>epsilonPrime = e / 2\<close>; the sampler's rate is \<open>epsilonPrime / (2 g)\<close>, and the
  closure captures that delta and the noise drawn at that rate. For
  \<open>(e, c, g, a) = (1, 1, 1, 0.01)\<close> the fallback is taken: \<open>epsilonPrime = 0.5\<close> and the
  residual delta is \<open>1 / (exp 0.25 - 1) - 0.005\<close>.
\<close>

theorem randomise_budget:
  assumes "0 < e" and "0 < c" and "0 < g" and "0 < a"
    and "self_epsilon self = Some e" and "self_function_sensitivity self = Some (Fin c)"
    and "self_data_sensitivity self = Some (Fin g)" and "self_alpha self = Fin a"
    and "self_d self = Some d"
  shows "(let epsilon_p0 = e - 2 * ln (1 + c * g / (0.5 * a));
              delta_residual = (if epsilon_p0 \<le> 0 then c * g / (exp (e / 4) - 1) - 0.5 * a else 0);
              epsilon_prime = (if epsilon_p0 \<le> 0 then e / 2 else epsilon_p0);
              scale = epsilon_prime / (2 * g);
              float_type = (if epsilon_p0 \<le> 0 then Python_float else Numpy_float64)
          in budget e (Fin c) (Fin g) (Fin a) =
               Inr (Fin epsilon_prime, Fin delta_residual, float_type (Fin scale)) \<and>
             one_over (float_type (Fin scale)) = Inr (Fin (1 / scale)) \<and>
             randomise rng self (Callable f) s =
               (case noise_vector rng d (float_type (Fin scale)) s of
                  (Inl err, s2) \<Rightarrow> (Inl err, self, s2)
                | (Inr b, s2) \<Rightarrow> (Inr (output_func b (Fin delta_residual) f), self, s2))) \<and>
         budget 1 (Fin 1) (Fin 1) (Fin 0.01) =
           Inr (Fin 0.5, Fin (1 / (exp 0.25 - 1) - 0.005), Python_float (Fin 0.25))"
proof -
  let ?p0 = "e - 2 * ln (1 + c * g / (0.5 * a))"
  let ?dl = "if ?p0 \<le> 0 then c * g / (exp (e / 4) - 1) - 0.5 * a else 0"
  let ?ep = "if ?p0 \<le> 0 then e / 2 else ?p0"
  let ?k = "if ?p0 \<le> 0 then Python_float else Numpy_float64"
  have b: "budget e (Fin c) (Fin g) (Fin a) = Inr (Fin ?ep, Fin ?dl, ?k (Fin (?ep / (2 * g))))"
    using budget_finite [OF assms(1-4)] by simp
  have b': "budget e (Fin c) (Fin g) (self_alpha self) = Inr (Fin ?ep, Fin ?dl, ?k (Fin (?ep / (2 * g))))"
    using b assms(8) by simp
  have pos: "?ep / (2 * g) \<noteq> 0" using assms(1,3) by simp
  have o: "one_over (?k (Fin (?ep / (2 * g)))) = Inr (Fin (1 / (?ep / (2 * g))))"
    using one_over_finite [OF pos] by (cases "?p0 \<le> 0") (simp_all only: if_True if_False)
  have r: "randomise rng self (Callable f) s =
             (case noise_vector rng d (?k (Fin (?ep / (2 * g)))) s of
                (Inl err, s2) \<Rightarrow> (Inl err, self, s2)
              | (Inr b, s2) \<Rightarrow> (Inr (output_func b (Fin ?dl) f), self, s2))"
    by (rule randomise_ready [OF assms(5) assms(1) assms(6) assms(7) assms(9) b'])
  from b o r budget_example show ?thesis unfolding Let_def by blast
qed

theorem randomise_budget_witness:
  "(0::real) < 1 \<and> (0::real) < 1 / 100 \<and>
   self_epsilon fallback_cfg = Some 1 \<and> self_function_sensitivity fallback_cfg = Some (Fin 1) \<and>
   self_data_sensitivity fallback_cfg = Some (Fin 1) \<and> self_alpha fallback_cfg = Fin (1 / 100) \<and>
   self_d fallback_cfg = Some 2 \<and>
   budget 1 (Fin 1) (Fin 1) (Fin (1 / 100)) =
     Inr (Fin (1 / 2), Fin (1 / (exp (1 / 4) - 1) - 1 / 200), Python_float (Fin (1 / 4))) \<and>
   one_over (Python_float (Fin (1 / 4))) = Inr (Fin 4) \<and>
   randomise tape_rng fallback_cfg (Callable zero_scalar) [3, - 4, 1 / 2] =
     (Inr (output_func [Fin (3 / 10), Fin (- (2 / 5))] (Fin (1 / (exp (1 / 4) - 1) - 1 / 200))
            zero_scalar),
      fallback_cfg, [])"
proof -
  have p: "(0::real) < 1" "(0::real) < 1 / 100" by simp_all
  note t = randomise_budget [OF p(1) p(1) p(1) p(2) fallback_cfg_fields(1,2,3,5,4),
      of tape_rng zero_scalar "[3, - 4, 1 / 2]"]
  have b: "budget 1 (Fin 1) (Fin 1) (Fin (1 / 100)) =
     Inr (Fin (1 / 2), Fin (1 / (exp (1 / 4) - 1) - 1 / 200), Python_float (Fin (1 / 4)))"
    using t by simp
  have o: "one_over (Python_float (Fin (1 / 4))) = Inr (Fin 4)"
    by (simp add: py_truediv_def)
  have r: "randomise tape_rng fallback_cfg (Callable zero_scalar) [3, - 4, 1 / 2] =
     (Inr (output_func [Fin (3 / 10), Fin (- (2 / 5))] (Fin (1 / (exp (1 / 4) - 1) - 1 / 200))
            zero_scalar),
      fallback_cfg, [])"
    using t ln_201 by (simp add: Let_def example_noise [OF o])
  from p fallback_cfg_fields b o r show ?thesis by simp
qed

subsection \<open>The closure returned by randomise\<close>

text \<open>
  Claim C2. The closure returned by \<^verbatim>\<open>randomise\<close> captures the noise vector \<open>b\<close> and
  the residual delta. At a point \<open>w\<close> of the length of \<open>b\<close>: when the objective returns a
  pair \<open>(f, grad)\<close> the closure returns the pair
  \<open>(f + b\<cdot>w + 0.5 delta w\<cdot>w, grad + b + delta w)\<close>, whether the gradient array is new
  or kept by the objective; when it returns a scalar \<open>f\<close> the closure returns the scalar
  \<open>f + b\<cdot>w + 0.5 delta w\<cdot>w\<close> alone.
\<close>

theorem wrapper_shape:
  assumes "self_epsilon self = Some e" and "0 < e"
    and "self_function_sensitivity self = Some c" and "self_data_sensitivity self = Some g"
    and "self_d self = Some d"
    and "budget e c g (self_alpha self) = Inr (epsilon_p, delta, scale)"
    and "noise_vector rng d scale s = (Inr b, s2)"
    and "length w = length b"
  shows "randomise rng self (Callable value) s = (Inr (output_func b delta value), self, s2) \<and>
         (value (w # rest) world = (Inr (Tuple [PyFloat f, NdArray grad]), (t', st')) \<and>
          length grad = length w
            \<longrightarrow> output_func b delta value (w # rest) world =
                  (Inr (Tuple [PyFloat (fadd (fadd f (dot b w))
                                          (fmul (fmul (Fin 0.5) delta) (dot w w))),
                               NdArray (vadd grad (vadd b (smul delta w)))]), (t', st'))) \<and>
         (value (w # rest) world = (Inr (Single (PyFloat f)), (t', st'))
            \<longrightarrow> output_func b delta value (w # rest) world =
                  (Inr (Single (PyFloat (fadd (fadd f (dot b w))
                                           (fmul (fmul (Fin 0.5) delta) (dot w w))))),
                   (t', st'))) \<and>
         (value (w # rest) world = (Inr (Tuple [PyFloat f, StoredArray a]), (t', st')) \<and>
          length (st' a) = length w
            \<longrightarrow> output_func b delta value (w # rest) world =
                  (Inr (Tuple [PyFloat (fadd (fadd f (dot b w))
                                          (fmul (fmul (Fin 0.5) delta) (dot w w))),
                               StoredArray a]),
                   (t', st'(a := vadd (st' a) (vadd b (smul delta w))))))"
proof (intro conjI impI)
  show "randomise rng self (Callable value) s = (Inr (output_func b delta value), self, s2)"
    by (rule randomise_returns [OF assms(1-7)])
next
  assume a: "value (w # rest) world = (Inr (Tuple [PyFloat f, NdArray grad]), (t', st')) \<and>
          length grad = length w"
  then show "output_func b delta value (w # rest) world =
                  (Inr (Tuple [PyFloat (fadd (fadd f (dot b w))
                                          (fmul (fmul (Fin 0.5) delta) (dot w w))),
                               NdArray (vadd grad (vadd b (smul delta w)))]), (t', st'))"
    using assms(8) by (clarsimp simp add: output_func_def perturb_pair)
next
  assume a: "value (w # rest) world = (Inr (Single (PyFloat f)), (t', st'))"
  then show "output_func b delta value (w # rest) world =
                  (Inr (Single (PyFloat (fadd (fadd f (dot b w))
                                           (fmul (fmul (Fin 0.5) delta) (dot w w))))),
                   (t', st'))"
    using assms(8) by (clarsimp simp add: output_func_def perturb_scalar)
next
  assume a: "value (w # rest) world = (Inr (Tuple [PyFloat f, StoredArray a]), (t', st')) \<and>
          length (st' a) = length w"
  then show "output_func b delta value (w # rest) world =
                  (Inr (Tuple [PyFloat (fadd (fadd f (dot b w))
                                          (fmul (fmul (Fin 0.5) delta) (dot w w))),
                               StoredArray a]),
                   (t', st'(a := vadd (st' a) (vadd b (smul delta w)))))"
    using assms(8) by (clarsimp simp add: output_func_def perturb_stored)
qed

theorem wrapper_shape_witness:
  "self_epsilon smooth_cfg = Some 2 \<and> (0::real) < 2 \<and>
   self_function_sensitivity smooth_cfg = Some (Fin 1) \<and>
   self_data_sensitivity smooth_cfg = Some (Fin 1) \<and> self_d smooth_cfg = Some 2 \<and>
   budget 2 (Fin 1) (Fin 1) (self_alpha smooth_cfg) =
     Inr (Fin (2 - 2 * ln 2), Fin 0, Numpy_float64 (Fin ((2 - 2 * ln 2) / 2))) \<and>
   noise_vector tape_rng 2 (Numpy_float64 (Fin ((2 - 2 * ln 2) / 2))) [3, - 4, 1 / 2] =
     (Inr [Fin (3 / 10), Fin (- (2 / 5))], []) \<and>
   length [Fin 1, Fin 1] = length [Fin (3 / 10), Fin (- (2 / 5))] \<and>
   randomise tape_rng smooth_cfg (Callable zero_pair) [3, - 4, 1 / 2] =
     (Inr (output_func [Fin (3 / 10), Fin (- (2 / 5))] (Fin 0) zero_pair), smooth_cfg, []) \<and>
   output_func [Fin (3 / 10), Fin (- (2 / 5))] (Fin 0) zero_pair [[Fin 1, Fin 1]] ([], zero_store) =
     (Inr (Tuple [PyFloat (Fin (- (1 / 10))), NdArray [Fin (3 / 10), Fin (- (2 / 5))]]),
      ([], zero_store)) \<and>
   output_func [Fin (3 / 10), Fin (- (2 / 5))] (Fin 0) zero_scalar [[Fin 1, Fin 1]] ([], zero_store) =
     (Inr (Single (PyFloat (Fin (- (1 / 10))))), ([], zero_store)) \<and>
   output_func [Fin (3 / 10), Fin (- (2 / 5))] (Fin 0) stored_pair [[Fin 1, Fin 1]] ([], zero_store) =
     (Inr (Tuple [PyFloat (Fin (- (1 / 10))), StoredArray 0]),
      ([], zero_store(0 := [Fin (3 / 10), Fin (- (2 / 5))])))"
proof -
  have p: "(0::real) < 2" by simp
  have l: "length [Fin 1, Fin 1] = length [Fin (3 / 10), Fin (- (2 / 5))]" by simp
  note t = wrapper_shape [OF smooth_cfg_fields(1) p smooth_cfg_fields(2,3,4) smooth_budget_cfg
      smooth_noise l]
  have r: "randomise tape_rng smooth_cfg (Callable zero_pair) [3, - 4, 1 / 2] =
     (Inr (output_func [Fin (3 / 10), Fin (- (2 / 5))] (Fin 0) zero_pair), smooth_cfg, [])"
    using t [of zero_pair] by simp
  have o1: "output_func [Fin (3 / 10), Fin (- (2 / 5))] (Fin 0) zero_pair [[Fin 1, Fin 1]] ([], zero_store) =
     (Inr (Tuple [PyFloat (Fin (- (1 / 10))), NdArray [Fin (3 / 10), Fin (- (2 / 5))]]),
      ([], zero_store))"
    using t [of zero_pair "[]" "([], zero_store)" "Fin 0" "[Fin 0, Fin 0]" "[]" zero_store]
    by (simp add: dot_def fsum_def vadd_def smul_def)
  have o2: "output_func [Fin (3 / 10), Fin (- (2 / 5))] (Fin 0) zero_scalar [[Fin 1, Fin 1]] ([], zero_store) =
     (Inr (Single (PyFloat (Fin (- (1 / 10))))), ([], zero_store))"
    using t [of zero_scalar "[]" "([], zero_store)" "Fin 0" "[Fin 0, Fin 0]" "[]" zero_store]
    by (simp add: dot_def fsum_def)
  have o3: "output_func [Fin (3 / 10), Fin (- (2 / 5))] (Fin 0) stored_pair [[Fin 1, Fin 1]] ([], zero_store) =
     (Inr (Tuple [PyFloat (Fin (- (1 / 10))), StoredArray 0]),
      ([], zero_store(0 := [Fin (3 / 10), Fin (- (2 / 5))])))"
    using t [of stored_pair "[]" "([], zero_store)" "Fin 0" "[Fin 0, Fin 0]" "[]" zero_store 0]
    by (simp add: dot_def fsum_def vadd_def smul_def)
  from smooth_cfg_fields p smooth_budget_cfg smooth_noise l r o1 o2 o3 show ?thesis by simp
qed

text \<open>
  Claim C3 says that two calls of the closure with the same \<open>w\<close> return the same, for a
  deterministic objective. The closure adds to the gradient array in place. When the
  objective hands back an array that it keeps, the second call finds the noise of the
  first call in it and adds it again: the gradient of the first call is \<open>b\<close>, that of
  the second is \<open>2 b\<close>.
\<close>

theorem wrapper_accumulates:
  "deterministic stored_pair \<and>
   randomise tape_rng smooth_cfg (Callable stored_pair) [3, - 4, 1 / 2] =
     (Inr (output_func [Fin (3 / 10), Fin (- (2 / 5))] (Fin 0) stored_pair), smooth_cfg, []) \<and>
   output_func [Fin (3 / 10), Fin (- (2 / 5))] (Fin 0) stored_pair [[Fin 1, Fin 1]]
       ([], zero_store) =
     (Inr (Tuple [PyFloat (Fin (- (1 / 10))), StoredArray 0]),
      ([], zero_store(0 := [Fin (3 / 10), Fin (- (2 / 5))]))) \<and>
   output_func [Fin (3 / 10), Fin (- (2 / 5))] (Fin 0) stored_pair [[Fin 1, Fin 1]]
       ([], zero_store(0 := [Fin (3 / 10), Fin (- (2 / 5))])) =
     (Inr (Tuple [PyFloat (Fin (- (1 / 10))), StoredArray 0]),
      ([], zero_store(0 := [Fin (3 / 5), Fin (- (4 / 5))])))"
proof -
  have d: "deterministic stored_pair" by (simp add: deterministic_def)
  have p: "(0::real) < 2" by simp
  have r: "randomise tape_rng smooth_cfg (Callable stored_pair) [3, - 4, 1 / 2] =
     (Inr (output_func [Fin (3 / 10), Fin (- (2 / 5))] (Fin 0) stored_pair), smooth_cfg, [])"
    by (rule randomise_returns [OF smooth_cfg_fields(1) p smooth_cfg_fields(2,3,4)
          smooth_budget_cfg smooth_noise])
  have o1: "output_func [Fin (3 / 10), Fin (- (2 / 5))] (Fin 0) stored_pair [[Fin 1, Fin 1]]
       ([], zero_store) =
     (Inr (Tuple [PyFloat (Fin (- (1 / 10))), StoredArray 0]),
      ([], zero_store(0 := [Fin (3 / 10), Fin (- (2 / 5))])))"
    by (simp add: output_func_def perturb_def np_dot_def add_into_def dot_def fsum_def
        vadd_def smul_def)
  have o2: "output_func [Fin (3 / 10), Fin (- (2 / 5))] (Fin 0) stored_pair [[Fin 1, Fin 1]]
       ([], zero_store(0 := [Fin (3 / 10), Fin (- (2 / 5))])) =
     (Inr (Tuple [PyFloat (Fin (- (1 / 10))), StoredArray 0]),
      ([], zero_store(0 := [Fin (3 / 5), Fin (- (4 / 5))])))"
    by (simp add: output_func_def perturb_def np_dot_def add_into_def dot_def fsum_def
        vadd_def smul_def)
  from d r o1 o2 show ?thesis by simp
qed

text \<open>
  Claim C9. The closure takes the objective's result for a value with a gradient
  exactly when it is a tuple. Any other result, a list of two numbers included, is a
  bare value: the two perturbation terms are added to it and it is returned alone. A
  tuple is unpacked into value and gradient, and a tuple that has not two elements
  raises ValueError.
\<close>

theorem wrapper_tuple_test:
  assumes "self_epsilon self = Some e" and "0 < e"
    and "self_function_sensitivity self = Some c" and "self_data_sensitivity self = Some g"
    and "self_d self = Some d"
    and "budget e c g (self_alpha self) = Inr (epsilon_p, delta, scale)"
    and "noise_vector rng d scale s = (Inr b, s2)"
  shows "randomise rng self (Callable value) s = (Inr (output_func b delta value), self, s2) \<and>
         (value (w # rest) world = (Inr (Single x), (t', st')) \<and>
          output_func b delta value (w # rest) world = (Inr r, (t'', st''))
            \<longrightarrow> (\<exists>x1 x2 st1. iadd_scalar x (dot b w) st' = (Inr x1, st1) \<and>
                   iadd_scalar x1 (fmul (fmul (Fin 0.5) delta) (dot w w)) st1 = (Inr x2, st'') \<and>
                   r = Single x2)) \<and>
         (value (w # rest) world = (Inr (Single (PyList [f, g'])), (t', st')) \<and>
          length w = length b
            \<longrightarrow> output_func b delta value (w # rest) world =
                  (Inr (Single (NdArray
                     [fadd (fadd f (dot b w)) (fmul (fmul (Fin 0.5) delta) (dot w w)),
                      fadd (fadd g' (dot b w)) (fmul (fmul (Fin 0.5) delta) (dot w w))])),
                   (t', st'))) \<and>
         (value (w # rest) world = (Inr (Tuple [x, y]), (t', st')) \<and> y \<noteq> PyNone \<and>
          output_func b delta value (w # rest) world = (Inr r, (t'', st''))
            \<longrightarrow> (\<exists>x2 y1 st2. r = Tuple [x2, y1] \<and>
                   iadd_array y (vadd b (smul delta w)) st2 = (Inr y1, st''))) \<and>
         (value (w # rest) world = (Inr (Tuple xs), (t', st')) \<and> length xs \<noteq> 2
            \<longrightarrow> output_func b delta value (w # rest) world = (Inl ValueError, (t', st')))"
proof (intro conjI impI)
  show "randomise rng self (Callable value) s = (Inr (output_func b delta value), self, s2)"
    by (rule randomise_returns [OF assms(1-7)])
next
  assume "value (w # rest) world = (Inr (Single x), (t', st')) \<and>
          output_func b delta value (w # rest) world = (Inr r, (t'', st''))"
  then have "perturb b delta w (Single x) st' = (Inr r, st'')"
    by (clarsimp simp add: output_func_def split: prod.splits)
  then show "\<exists>x1 x2 st1. iadd_scalar x (dot b w) st' = (Inr x1, st1) \<and>
                   iadd_scalar x1 (fmul (fmul (Fin 0.5) delta) (dot w w)) st1 = (Inr x2, st'') \<and>
                   r = Single x2"
    by (rule perturb_single)
next
  assume "value (w # rest) world = (Inr (Single (PyList [f, g'])), (t', st')) \<and>
          length w = length b"
  then show "output_func b delta value (w # rest) world =
                  (Inr (Single (NdArray
                     [fadd (fadd f (dot b w)) (fmul (fmul (Fin 0.5) delta) (dot w w)),
                      fadd (fadd g' (dot b w)) (fmul (fmul (Fin 0.5) delta) (dot w w))])),
                   (t', st'))"
    by (clarsimp simp add: output_func_def perturb_list2)
next
  assume a: "value (w # rest) world = (Inr (Tuple [x, y]), (t', st')) \<and> y \<noteq> PyNone \<and>
          output_func b delta value (w # rest) world = (Inr r, (t'', st''))"
  then have "perturb b delta w (Tuple [x, y]) st' = (Inr r, st'')"
    by (clarsimp simp add: output_func_def split: prod.splits)
  with a show "\<exists>x2 y1 st2. r = Tuple [x2, y1] \<and>
                   iadd_array y (vadd b (smul delta w)) st2 = (Inr y1, st'')"
    by (blast dest: perturb_tuple)
next
  assume "value (w # rest) world = (Inr (Tuple xs), (t', st')) \<and> length xs \<noteq> 2"
  then show "output_func b delta value (w # rest) world = (Inl ValueError, (t', st'))"
    by (clarsimp simp add: output_func_def perturb_def unpack_not_pair)
qed

theorem wrapper_tuple_test_witness:
  "self_epsilon smooth_cfg = Some 2 \<and> (0::real) < 2 \<and>
   self_function_sensitivity smooth_cfg = Some (Fin 1) \<and>
   self_data_sensitivity smooth_cfg = Some (Fin 1) \<and> self_d smooth_cfg = Some 2 \<and>
   budget 2 (Fin 1) (Fin 1) (self_alpha smooth_cfg) =
     Inr (Fin (2 - 2 * ln 2), Fin 0, Numpy_float64 (Fin ((2 - 2 * ln 2) / 2))) \<and>
   noise_vector tape_rng 2 (Numpy_float64 (Fin ((2 - 2 * ln 2) / 2))) [3, - 4, 1 / 2] =
     (Inr [Fin (3 / 10), Fin (- (2 / 5))], []) \<and>
   randomise tape_rng smooth_cfg (Callable zero_list) [3, - 4, 1 / 2] =
     (Inr (output_func [Fin (3 / 10), Fin (- (2 / 5))] (Fin 0) zero_list), smooth_cfg, []) \<and>
   output_func [Fin (3 / 10), Fin (- (2 / 5))] (Fin 0) zero_list [[Fin 1, Fin 1]] ([], zero_store) =
     (Inr (Single (NdArray [Fin (- (1 / 10)), Fin (- (1 / 10))])), ([], zero_store)) \<and>
   output_func [Fin (3 / 10), Fin (- (2 / 5))] (Fin 0) zero_pair [[Fin 1, Fin 1]] ([], zero_store) =
     (Inr (Tuple [PyFloat (Fin (- (1 / 10))), NdArray [Fin (3 / 10), Fin (- (2 / 5))]]),
      ([], zero_store)) \<and>
   output_func [Fin (3 / 10), Fin (- (2 / 5))] (Fin 0) zero_triple [[Fin 1, Fin 1]] ([], zero_store) =
     (Inl ValueError, ([], zero_store))"
proof -
  have p: "(0::real) < 2" by simp
  note t = wrapper_tuple_test [OF smooth_cfg_fields(1) p smooth_cfg_fields(2,3,4)
      smooth_budget_cfg smooth_noise]
  have r: "randomise tape_rng smooth_cfg (Callable zero_list) [3, - 4, 1 / 2] =
     (Inr (output_func [Fin (3 / 10), Fin (- (2 / 5))] (Fin 0) zero_list), smooth_cfg, [])"
    using t [of zero_list] by simp
  have o1: "output_func [Fin (3 / 10), Fin (- (2 / 5))] (Fin 0) zero_list [[Fin 1, Fin 1]] ([], zero_store) =
     (Inr (Single (NdArray [Fin (- (1 / 10)), Fin (- (1 / 10))])), ([], zero_store))"
    using t [of zero_list "[Fin 1, Fin 1]" "[]" "([], zero_store)" _ "[]" zero_store _ _ _
        "Fin 0" "Fin 0"]
    by (simp add: dot_def fsum_def)
  have o2: "output_func [Fin (3 / 10), Fin (- (2 / 5))] (Fin 0) zero_pair [[Fin 1, Fin 1]] ([], zero_store) =
     (Inr (Tuple [PyFloat (Fin (- (1 / 10))), NdArray [Fin (3 / 10), Fin (- (2 / 5))]]),
      ([], zero_store))"
    by (simp add: output_func_def perturb_def np_dot_def add_into_def dot_def fsum_def
        vadd_def smul_def)
  have o3: "output_func [Fin (3 / 10), Fin (- (2 / 5))] (Fin 0) zero_triple [[Fin 1, Fin 1]] ([], zero_store) =
     (Inl ValueError, ([], zero_store))"
    using t [of zero_triple "[Fin 1, Fin 1]" "[]" "([], zero_store)" _ "[]" zero_store _ _ _
        _ _ _ "[PyFloat (Fin 0), NdArray [Fin 0, Fin 0], PyNone]"]
    by simp
  from smooth_cfg_fields p smooth_budget_cfg smooth_noise r o1 o2 o3 show ?thesis by simp
qed

end
